theory Spec2Isabelle
  imports
    Main
    "HOL-Library.Multiset"
    "HOL-Library.List_Lexorder"
    "HOL-Library.Char_ord"
begin

section \<open>The tailor shop order API (server.js)\<close>

text \<open>
  The server keeps two stores: the table \<open>Orders\<close> of the row store, reached through
  \<open>pool.execute\<close>, and the files written by the upload middleware and cleaned with
  \<open>fs.unlink\<close>. Every route handler becomes a function from the state of both stores
  to the response and the state at the moment the response is sent. A call of
  \<open>fs.unlink\<close> only starts the removal: the handler does not wait for it, so the
  state keeps the removals that are under way, and they are completed by \<open>settle\<close>.
  What the handler cannot decide (the clocks, a failing row store, a failing disk) is
  read from an environment.
\<close>

subsection \<open>Data\<close>

text \<open>The three values of the column \<open>status\<close>: 'Pending', 'In Progress', 'Complete'.\<close>

datatype order_status = Pending | InProgress | Complete

text \<open>
  A row of \<open>Orders\<close>, with the columns the statements of server.js name. Dates are ISO
  strings (\<open>YYYY-MM-DD\<close>), compared as strings: on such strings the lexicographic order
  is the order of the dates. \<open>total_amount\<close> counts hundredths. A column that may hold
  NULL is an option.
\<close>

record order =
  bill_number :: string
  bill_date :: string
  delivery_date :: string
  "notes" :: "string option"
  status :: order_status
  customer_name :: string
  total_amount :: int
  completion_date :: "nat option"
  image_path :: "string option"

text \<open>The statements sent to the row store and the effects on the two stores, in the
  order they happen. \<open>UnlinkStarted\<close> is the call of \<open>fs.unlink\<close>; \<open>FileUnlinked\<close> and
  \<open>UnlinkFailed\<close> are its two outcomes, the second being the error that the callback
  logs.\<close>

datatype statement =
  InsertOrder string
  | UpdateComplete string
  | SelectPending string string
  | SelectAll

datatype effect =
  FileWritten string
  | UnlinkStarted string
  | FileUnlinked string
  | UnlinkFailed string
  | Executed statement

text \<open>\<open>uploads\<close> maps the path of a stored file to its content, \<open>folders\<close> are the
  directories that exist (relative to the working directory of the process),
  \<open>pending\<close> are the paths whose \<open>fs.unlink\<close> has been started and has not completed.\<close>

record state =
  orders :: "order list"
  uploads :: "string \<rightharpoonup> string"
  folders :: "string list"
  pending :: "string list"
  effects :: "effect list"

text \<open>
  The environment of one request: \<open>now_iso\<close> is \<open>new Date().toISOString()\<close>,
  \<open>date_now\<close> is \<open>Date.now()\<close>, \<open>sql_now\<close> is the row store's \<open>NOW()\<close>.
  \<open>db_fault\<close> is the \<open>err.code\<close> with which \<open>pool.execute\<close> rejects when the row store
  fails, \<open>dup_raises\<close> tells how the row store reports a duplicate key (by rejecting
  with \<open>ER_DUP_ENTRY\<close>, or by \<open>affectedRows = 0\<close>), \<open>disk_fault\<close> is a write that fails
  although its folder exists, \<open>unlink_fault\<close> is an \<open>fs.unlink\<close> that fails although
  the file exists.
\<close>

record env =
  now_iso :: string
  date_now :: nat
  sql_now :: nat
  db_fault :: "string option"
  dup_raises :: bool
  disk_fault :: bool
  unlink_fault :: bool

text \<open>The multipart request of \<open>POST /api/orders\<close>: the form fields of \<open>req.body\<close> and the
  file part named \<open>style_image\<close>, the only file part of the request if there is one. \<open>extname\<close> is \<open>path.extname(file.originalname)\<close>;
  \<open>bill_number_at_upload\<close> is \<open>req.body.bill_number\<close> as the upload middleware sees it
  when it names the file (the fields sent before the file part).\<close>

record upload =
  extname :: string
  content :: string
  bill_number_at_upload :: "string option"

record create_request =
  body_bill_number :: "string option"
  body_delivery_date :: "string option"
  body_notes :: "string option"
  style_image :: "upload option"

text \<open>\<open>req.file\<close> as the middleware leaves it.\<close>

record file_info =
  filename :: string
  path :: string

text \<open>The rows of the two listings.\<close>

record pending_row =
  p_bill_number :: string
  p_delivery_date :: string
  p_notes :: "string option"
  p_status :: order_status
  p_image_path :: "string option"

record all_row =
  a_bill_number :: string
  a_delivery_date :: string
  a_notes :: "string option"
  a_status :: order_status
  a_completion_date :: "nat option"
  a_image_path :: "string option"

datatype body =
  ErrorBody string
  | MessageBody string
  | CreatedBody string string
  | PendingRows "pending_row list"
  | AllRows "all_row list"
  | DefaultErrorPage

datatype response = Response nat body

fun status_code :: "response \<Rightarrow> nat" where
  "status_code (Response c b) = c"

subsection \<open>JavaScript values\<close>

text \<open>A form field or query parameter is absent or a string; absent and the empty string
  are the falsy ones.\<close>

definition falsy :: "string option \<Rightarrow> bool" where
  "falsy v = (case v of None \<Rightarrow> True | Some x \<Rightarrow> x = [])"

text \<open>\<open>v || d\<close>\<close>

definition or_default :: "string option \<Rightarrow> string \<Rightarrow> string" where
  "or_default v d = (case v of None \<Rightarrow> d | Some x \<Rightarrow> if x = [] then d else x)"

text \<open>A number appended to a string: its decimal digits.\<close>

definition digit_char :: "nat \<Rightarrow> char" where
  "digit_char d = ''0123456789'' ! d"

function dec :: "nat \<Rightarrow> string" where
  "dec n = (if n < 10 then [digit_char n] else dec (n div 10) @ [digit_char (n mod 10)])"
  by pat_completeness auto
termination
  by (relation "measure (\<lambda>n. n)") auto

declare dec.simps [simp del]

subsection \<open>The upload middleware (multer.diskStorage, upload.single)\<close>

definition destination :: string where
  "destination = ''uploads/''"

text \<open>\<open>billNumber + '-style-' + Date.now() + fileExtension\<close>, with
  \<open>billNumber = req.body.bill_number || 'temp'\<close>.\<close>

definition storage_filename :: "env \<Rightarrow> upload \<Rightarrow> string" where
  "storage_filename e up =
     (let billNumber = or_default (bill_number_at_upload up) ''temp'';
          fileExtension = extname up
      in billNumber @ ''-style-'' @ dec (date_now e) @ fileExtension)"

text \<open>\<open>path.join(a, b)\<close> on POSIX paths: the two parts are put together with a \<open>/\<close> and
  the result is normalised, that is, split at \<open>/\<close>, empty segments and \<open>.\<close> dropped,
  \<open>..\<close> taking back the segment before it (or kept, in a relative path, when there is
  none to take back), and a trailing \<open>/\<close> kept.\<close>

fun split_on :: "char \<Rightarrow> string \<Rightarrow> string list" where
  "split_on c [] = [[]]"
| "split_on c (x # xs) =
     (if x = c then [] # split_on c xs
      else (case split_on c xs of
              [] \<Rightarrow> [[x]]
            | w # ws \<Rightarrow> (x # w) # ws))"

fun join_slash :: "string list \<Rightarrow> string" where
  "join_slash [] = []"
| "join_slash [w] = w"
| "join_slash (w # v # ws) = w @ ''/'' @ join_slash (v # ws)"

fun normalize_segments :: "bool \<Rightarrow> string list \<Rightarrow> string list \<Rightarrow> string list" where
  "normalize_segments allowAboveRoot res [] = res"
| "normalize_segments allowAboveRoot res (seg # segs) =
     (if seg = [] \<or> seg = ''.'' then normalize_segments allowAboveRoot res segs
      else if seg = ''..'' then
        (if res \<noteq> [] \<and> last res \<noteq> ''..''
         then normalize_segments allowAboveRoot (butlast res) segs
         else if allowAboveRoot
         then normalize_segments allowAboveRoot (res @ [''..'']) segs
         else normalize_segments allowAboveRoot res segs)
      else normalize_segments allowAboveRoot (res @ [seg]) segs)"

definition normalize_path :: "string \<Rightarrow> string" where
  "normalize_path p =
     (if p = [] then ''.''
      else
        (let isAbsolute = (hd p = CHR ''/'');
             trailingSeparator = (last p = CHR ''/'');
             q = join_slash (normalize_segments (\<not> isAbsolute) [] (split_on CHR ''/'' p))
         in if q = []
            then (if isAbsolute then ''/'' else if trailingSeparator then ''./'' else ''.'')
            else (if isAbsolute then ''/'' else []) @ q
                 @ (if trailingSeparator then ''/'' else [])))"

definition path_join :: "string \<Rightarrow> string \<Rightarrow> string" where
  "path_join a b =
     (let joined = (if a = [] then b else if b = [] then a else a @ ''/'' @ b)
      in if joined = [] then ''.'' else normalize_path joined)"

text \<open>The folder that has to exist for a file to be created at a normalised path: the
  path without its last segment, \<open>.\<close> for a path of one segment.\<close>

definition parent_folder :: "string \<Rightarrow> string" where
  "parent_folder p =
     (let dir = join_slash (butlast (split_on CHR ''/'' p))
      in if dir = [] then ''.'' else dir)"

text \<open>Creating the file fails when its folder does not exist (the middleware does not
  create folders when \<open>destination\<close> is a function), or when the disk fails.\<close>

definition write_fails :: "env \<Rightarrow> string list \<Rightarrow> string \<Rightarrow> bool" where
  "write_fails e dirs p = (disk_fault e \<or> parent_folder p \<notin> set dirs)"

text \<open>\<open>upload.single('style_image')\<close>: the file is written at
  \<open>path.join(destination, filename)\<close>, which becomes \<open>req.file.path\<close>, before the route
  handler runs; a write that fails passes the error on, and the handler never runs.\<close>

definition upload_single ::
  "env \<Rightarrow> create_request \<Rightarrow> state \<Rightarrow> file_info option option \<times> state" where
  "upload_single e req s =
     (case style_image req of
        None \<Rightarrow> (Some None, s)
      | Some up \<Rightarrow>
          (let fn = storage_filename e up; p = path_join destination fn
           in if write_fails e (folders s) p then (None, s)
              else (Some (Some \<lparr>filename = fn, path = p\<rparr>),
                    s\<lparr>uploads := (uploads s)(p \<mapsto> content up),
                      effects := effects s @ [FileWritten p]\<rparr>)))"

text \<open>\<open>fs.unlink(path, callback)\<close> as the handler calls it: the removal is started and
  the handler goes on without waiting for it.\<close>

definition fs_unlink :: "string \<Rightarrow> state \<Rightarrow> state" where
  "fs_unlink p s =
     s\<lparr>pending := pending s @ [p], effects := effects s @ [UnlinkStarted p]\<rparr>"

text \<open>\<open>if (req.file) fs.unlink(req.file.path, ...)\<close>\<close>

definition cleanup :: "file_info option \<Rightarrow> state \<Rightarrow> state" where
  "cleanup file s = (case file of None \<Rightarrow> s | Some f \<Rightarrow> fs_unlink (path f) s)"

text \<open>A started removal completes later: the file is removed, or the removal fails (no
  file at the path, or a failing disk) and the callback only logs the error.\<close>

definition unlink_done :: "env \<Rightarrow> string \<Rightarrow> state \<Rightarrow> state" where
  "unlink_done e p s =
     (if unlink_fault e \<or> uploads s p = None
      then s\<lparr>effects := effects s @ [UnlinkFailed p]\<rparr>
      else s\<lparr>uploads := (uploads s)(p := None), effects := effects s @ [FileUnlinked p]\<rparr>)"

fun complete_unlinks :: "env \<Rightarrow> string list \<Rightarrow> state \<Rightarrow> state" where
  "complete_unlinks e [] s = s"
| "complete_unlinks e (p # ps) s = complete_unlinks e ps (unlink_done e p s)"

text \<open>All removals under way have completed.\<close>

definition settle :: "env \<Rightarrow> state \<Rightarrow> state" where
  "settle e s = complete_unlinks e (pending s) (s\<lparr>pending := []\<rparr>)"

subsection \<open>The row store (pool.execute)\<close>

definition executed :: "statement \<Rightarrow> state \<Rightarrow> state" where
  "executed q s = s\<lparr>effects := effects s @ [Executed q]\<rparr>"

text \<open>The row written by
  \<open>INSERT INTO Orders (bill_number, bill_date, delivery_date, notes, status,
  customer_name, total_amount, image_path) VALUES (?, ?, ?, ?, 'Pending', 'N/A', 0.00, ?)\<close>.\<close>

definition insert_row ::
  "string \<Rightarrow> string \<Rightarrow> string \<Rightarrow> string \<Rightarrow> string option \<Rightarrow> order" where
  "insert_row b bd dd n ip =
     \<lparr>bill_number = b, bill_date = bd, delivery_date = dd, notes = Some n,
      status = Pending, customer_name = ''N/A'', total_amount = 0,
      completion_date = None, image_path = ip\<rparr>"

text \<open>
  Modelled from the spec: the table \<open>Orders\<close> and the module \<open>./db\<close> are not among the
  sources. The spec has \<open>billNumber\<close> unique, enforced by the repository at insert time,
  each statement atomic, and a failing row store raising an error. The result is the
  rejection's \<open>err.code\<close> or \<open>affectedRows\<close>.
\<close>

definition execute_insert ::
  "env \<Rightarrow> order \<Rightarrow> state \<Rightarrow> (string + nat) \<times> state" where
  "execute_insert e row s =
     (let s1 = executed (InsertOrder (bill_number row)) s
      in case db_fault e of
           Some c \<Rightarrow> (Inl c, s1)
         | None \<Rightarrow>
             if bill_number row \<in> set (map bill_number (orders s))
             then (if dup_raises e then (Inl ''ER_DUP_ENTRY'', s1) else (Inr 0, s1))
             else (Inr 1, s1\<lparr>orders := orders s @ [row]\<rparr>))"

text \<open>\<open>WHERE bill_number = ? AND status != 'Complete'\<close>\<close>

definition eligible :: "string \<Rightarrow> order \<Rightarrow> bool" where
  "eligible b r = (bill_number r = b \<and> status r \<noteq> Complete)"

text \<open>\<open>UPDATE Orders SET status = 'Complete', completion_date = NOW() WHERE ...\<close>\<close>

definition execute_complete ::
  "env \<Rightarrow> string \<Rightarrow> state \<Rightarrow> (string + nat) \<times> state" where
  "execute_complete e b s =
     (let s1 = executed (UpdateComplete b) s
      in case db_fault e of
           Some c \<Rightarrow> (Inl c, s1)
         | None \<Rightarrow>
             (Inr (length (filter (eligible b) (orders s))),
              s1\<lparr>orders :=
                   map (\<lambda>r. if eligible b r
                            then r\<lparr>status := Complete, completion_date := Some (sql_now e)\<rparr>
                            else r)
                       (orders s)\<rparr>))"

text \<open>\<open>WHERE status IN ('Pending', 'In Progress') AND delivery_date BETWEEN ? AND ?\<close>\<close>

definition pending_between :: "string \<Rightarrow> string \<Rightarrow> order \<Rightarrow> bool" where
  "pending_between lo hi r =
     ((status r = Pending \<or> status r = InProgress)
      \<and> lo \<le> delivery_date r \<and> delivery_date r \<le> hi)"

text \<open>\<open>SELECT bill_number, delivery_date, notes, status, image_path\<close>\<close>

definition pending_projection :: "order \<Rightarrow> pending_row" where
  "pending_projection r =
     \<lparr>p_bill_number = bill_number r, p_delivery_date = delivery_date r,
      p_notes = notes r, p_status = status r, p_image_path = image_path r\<rparr>"

text \<open>\<open>... FROM Orders WHERE ... ORDER BY delivery_date ASC\<close>\<close>

definition execute_select_pending ::
  "env \<Rightarrow> string \<Rightarrow> string \<Rightarrow> state \<Rightarrow> (string + pending_row list) \<times> state" where
  "execute_select_pending e lo hi s =
     (let s1 = executed (SelectPending lo hi) s
      in case db_fault e of
           Some c \<Rightarrow> (Inl c, s1)
         | None \<Rightarrow>
             (Inr (map pending_projection
                     (sort_key delivery_date (filter (pending_between lo hi) (orders s)))),
              s1))"

text \<open>\<open>SELECT bill_number, delivery_date, notes, status, completion_date, image_path\<close>\<close>

definition all_projection :: "order \<Rightarrow> all_row" where
  "all_projection r =
     \<lparr>a_bill_number = bill_number r, a_delivery_date = delivery_date r,
      a_notes = notes r, a_status = status r,
      a_completion_date = completion_date r, a_image_path = image_path r\<rparr>"

text \<open>\<open>... FROM Orders ORDER BY bill_number DESC\<close>\<close>

definition execute_select_all ::
  "env \<Rightarrow> state \<Rightarrow> (string + all_row list) \<times> state" where
  "execute_select_all e s =
     (let s1 = executed SelectAll s
      in case db_fault e of
           Some c \<Rightarrow> (Inl c, s1)
         | None \<Rightarrow>
             (Inr (map all_projection (rev (sort_key bill_number (orders s)))), s1))"

subsection \<open>A. POST /api/orders\<close>

text \<open>The handler proper, run with \<open>req.body\<close> and \<open>req.file\<close> once the middleware is done.\<close>

definition create_order ::
  "env \<Rightarrow> create_request \<Rightarrow> file_info option \<Rightarrow> state \<Rightarrow> response \<times> state" where
  "create_order e req file s =
     (let bill_date = takeWhile (\<lambda>c. c \<noteq> CHR ''T'') (now_iso e);
          image_path = map_option filename file
      in if falsy (body_bill_number req) \<or> falsy (body_delivery_date req)
         then (Response 400 (ErrorBody ''Bill number and delivery date are required.''),
               cleanup file s)
         else
           (let b = or_default (body_bill_number req) [];
                dd = or_default (body_delivery_date req) []
            in case execute_insert e
                      (insert_row b bill_date dd (or_default (body_notes req) []) image_path) s of
                 (Inr affectedRows, s1) \<Rightarrow>
                   if affectedRows = 0
                   then (Response 409
                           (ErrorBody ''Bill number already exists or failed to insert.''), s1)
                   else (Response 201 (CreatedBody ''Order created successfully.'' b), s1)
               | (Inl code, s1) \<Rightarrow>
                   (let s2 = cleanup file s1
                    in if code = ''ER_DUP_ENTRY''
                       then (Response 409
                               (ErrorBody
                                  ''Bill number already exists. Please use a unique number.''),
                             s2)
                       else (Response 500 (ErrorBody ''Failed to create order.''), s2))))"

text \<open>The route: \<open>upload.single('style_image')\<close>, then the handler. When the middleware
  fails, the framework answers 500 by itself.\<close>

definition post_orders :: "env \<Rightarrow> create_request \<Rightarrow> state \<Rightarrow> response \<times> state" where
  "post_orders e req s =
     (case upload_single e req s of
        (None, s1) \<Rightarrow> (Response 500 DefaultErrorPage, s1)
      | (Some file, s1) \<Rightarrow> create_order e req file s1)"

subsection \<open>B. PUT /api/orders/:billNumber/complete\<close>

definition put_complete :: "env \<Rightarrow> string \<Rightarrow> state \<Rightarrow> response \<times> state" where
  "put_complete e billNumber s =
     (case execute_complete e billNumber s of
        (Inr affectedRows, s1) \<Rightarrow>
          if affectedRows = 0
          then (Response 404 (MessageBody ''Order not found or status not updated.''), s1)
          else (Response 200
                  (MessageBody
                     (''Bill '' @ billNumber @ '' marked as Complete and ready for pickup.'')),
                s1)
      | (Inl code, s1) \<Rightarrow>
          (Response 500 (ErrorBody ''Failed to update order status.''), s1))"

subsection \<open>C. GET /api/orders/pending\<close>

definition get_pending ::
  "env \<Rightarrow> string option \<Rightarrow> string option \<Rightarrow> state \<Rightarrow> response \<times> state" where
  "get_pending e q_start_date q_end_date s =
     (let start_date = or_default q_start_date ''2000-01-01'';
          end_date = or_default q_end_date ''2100-01-01''
      in case execute_select_pending e start_date end_date s of
           (Inr rows, s1) \<Rightarrow> (Response 200 (PendingRows rows), s1)
         | (Inl code, s1) \<Rightarrow>
             (Response 500 (ErrorBody ''Error fetching pending orders.''), s1))"

subsection \<open>D. GET /api/orders\<close>

definition get_orders :: "env \<Rightarrow> state \<Rightarrow> response \<times> state" where
  "get_orders e s =
     (case execute_select_all e s of
        (Inr rows, s1) \<Rightarrow> (Response 200 (AllRows rows), s1)
      | (Inl code, s1) \<Rightarrow> (Response 500 (ErrorBody ''Error fetching all orders.''), s1))"

subsection \<open>The four operations together\<close>

datatype operation =
  CreateOrder create_request
  | CompleteOrder string
  | ListPending "string option" "string option"
  | ListAll

fun handle :: "env \<Rightarrow> operation \<Rightarrow> state \<Rightarrow> response \<times> state" where
  "handle e (CreateOrder req) s = post_orders e req s"
| "handle e (CompleteOrder b) s = put_complete e b s"
| "handle e (ListPending a b) s = get_pending e a b s"
| "handle e ListAll s = get_orders e s"

subsection \<open>Starting the server\<close>

definition PORT :: nat where
  "PORT = 3000"

datatype startup_event =
  GetConnection
  | LogConnected
  | ReleaseConnection
  | Listen nat
  | LogFailed string

text \<open>\<open>pool.getConnection().then(...).catch(...)\<close>: the argument is the outcome of
  \<open>getConnection\<close>, \<open>None\<close> for a connection and \<open>Some msg\<close> for a rejection with
  \<open>err.message = msg\<close>.\<close>

definition start_server :: "string option \<Rightarrow> startup_event list" where
  "start_server outcome =
     GetConnection #
       (case outcome of
          None \<Rightarrow> [LogConnected, ReleaseConnection, Listen PORT]
        | Some msg \<Rightarrow> [LogFailed msg])"

text \<open>The process takes requests from the moment \<open>app.listen\<close> has been called.\<close>

definition accepting :: "startup_event list \<Rightarrow> bool" where
  "accepting evs = (\<exists>p \<in> set evs. case p of Listen n \<Rightarrow> True | _ \<Rightarrow> False)"

subsection \<open>Sample data\<close>

text \<open>A shop, its clock and a few requests, on which the theorems below are run.\<close>

definition shop_env :: env where
  "shop_env = \<lparr>now_iso = ''2025-01-05T10:15:30.000Z'', date_now = 1736072130000,
     sql_now = 1736072130, db_fault = None, dup_raises = True, disk_fault = False,
     unlink_fault = False\<rparr>"

text \<open>The same shop on a row store that reports a duplicate key by \<open>affectedRows = 0\<close>.\<close>

definition quiet_env :: env where
  "quiet_env = shop_env\<lparr>dup_raises := False\<rparr>"

text \<open>The same shop when \<open>fs.unlink\<close> fails.\<close>

definition stuck_env :: env where
  "stuck_env = shop_env\<lparr>unlink_fault := True\<rparr>"

definition sketch :: upload where
  "sketch = \<lparr>extname = ''.png'', content = ''PNG'', bill_number_at_upload = Some ''B100''\<rparr>"

definition order_B100 :: create_request where
  "order_B100 = \<lparr>body_bill_number = Some ''B100'', body_delivery_date = Some ''2025-01-10'',
     body_notes = None, style_image = Some sketch\<rparr>"

text \<open>A request without \<open>bill_number\<close>, with an image.\<close>

definition unnamed_order :: create_request where
  "unnamed_order = \<lparr>body_bill_number = None, body_delivery_date = Some ''2025-01-10'',
     body_notes = Some ''two pleats'',
     style_image = Some (sketch\<lparr>bill_number_at_upload := None\<rparr>)\<rparr>"

text \<open>A request without \<open>delivery_date\<close>, whose bill number, sent before the image, has
  a \<open>/\<close> in it.\<close>

definition undated_order :: create_request where
  "undated_order = \<lparr>body_bill_number = Some ''24/117'', body_delivery_date = None,
     body_notes = None,
     style_image = Some (sketch\<lparr>bill_number_at_upload := Some ''24/117''\<rparr>)\<rparr>"

definition empty_shop :: state where
  "empty_shop = \<lparr>orders = [], uploads = Map.empty, folders = [''.'', ''uploads''],
     pending = [], effects = []\<rparr>"

definition row_B100 :: order where
  "row_B100 = \<lparr>bill_number = ''B100'', bill_date = ''2025-01-02'',
     delivery_date = ''2025-01-08'', notes = Some [], status = Pending,
     customer_name = ''N/A'', total_amount = 0, completion_date = None,
     image_path = None\<rparr>"

definition row_B101 :: order where
  "row_B101 = row_B100\<lparr>bill_number := ''B101'', delivery_date := ''2025-01-03'',
     status := InProgress\<rparr>"

definition row_B102 :: order where
  "row_B102 = row_B100\<lparr>bill_number := ''B102'', delivery_date := ''2025-01-05'',
     status := Complete, completion_date := Some 1735900000\<rparr>"

definition row_B103 :: order where
  "row_B103 = row_B100\<lparr>bill_number := ''B103'', delivery_date := ''2150-06-01''\<rparr>"

definition shop_with_B100 :: state where
  "shop_with_B100 = empty_shop\<lparr>orders := [row_B100]\<rparr>"

definition busy_shop :: state where
  "busy_shop = empty_shop\<lparr>orders := [row_B100, row_B101, row_B102, row_B103]\<rparr>"

section \<open>Properties\<close>

lemmas post_defs = post_orders_def create_order_def upload_single_def execute_insert_def
  cleanup_def fs_unlink_def executed_def insert_row_def Let_def

lemmas sample_defs = shop_env_def quiet_env_def stuck_env_def sketch_def order_B100_def
  unnamed_order_def undated_order_def empty_shop_def row_B100_def row_B101_def row_B102_def
  row_B103_def shop_with_B100_def busy_shop_def

lemma dec_sample: "dec 1736072130000 = ''1736072130000''"
  by (simp add: dec.simps digit_char_def)

lemmas eval_defs = post_defs storage_filename_def dec_sample destination_def falsy_def
  or_default_def path_join_def normalize_path_def parent_folder_def write_fails_def
  settle_def unlink_done_def sample_defs

subsection \<open>Removals that complete\<close>

lemma orders_complete_unlinks: "orders (complete_unlinks e ps s) = orders s"
  by (induction ps arbitrary: s) (simp_all add: unlink_done_def)

lemma orders_settle: "orders (settle e s) = orders s"
  by (simp add: settle_def orders_complete_unlinks)

lemma absent_complete_unlinks:
  "uploads s p = None \<Longrightarrow> uploads (complete_unlinks e ps s) p = None"
  by (induction ps arbitrary: s) (simp_all add: unlink_done_def)

lemma removed_complete_unlinks:
  "\<not> unlink_fault e \<Longrightarrow> p \<in> set ps \<Longrightarrow> uploads (complete_unlinks e ps s) p = None"
proof (induction ps arbitrary: s)
  case Nil
  then show ?case by simp
next
  case (Cons q ps)
  show ?case
  proof (cases "p = q")
    case True
    from Cons.prems(1) have "uploads (unlink_done e q s) q = None"
      by (simp add: unlink_done_def)
    with True show ?thesis
      by (simp add: absent_complete_unlinks)
  next
    case False
    with Cons.prems have "p \<in> set ps" by simp
    with Cons.IH [OF Cons.prems(1)] show ?thesis by simp
  qed
qed

lemma kept_complete_unlinks:
  "unlink_fault e \<Longrightarrow> uploads (complete_unlinks e ps s) = uploads s"
  by (induction ps arbitrary: s) (simp_all add: unlink_done_def)

text \<open>Once the removals under way have completed without error, none of their files is
  left; when they fail, every file is where it was.\<close>

lemma settle_removes:
  "\<not> unlink_fault e \<Longrightarrow> p \<in> set (pending s) \<Longrightarrow> uploads (settle e s) p = None"
  by (simp add: settle_def removed_complete_unlinks)

lemma settle_keeps: "unlink_fault e \<Longrightarrow> uploads (settle e s) = uploads s"
  by (simp add: settle_def kept_complete_unlinks)

subsection \<open>The sample shop at work\<close>

lemma create_sample:
  "post_orders shop_env order_B100 empty_shop =
     (Response 201 (CreatedBody ''Order created successfully.'' ''B100''),
      \<lparr>orders =
         [\<lparr>bill_number = ''B100'', bill_date = ''2025-01-05'', delivery_date = ''2025-01-10'',
           notes = Some [], status = Pending, customer_name = ''N/A'', total_amount = 0,
           completion_date = None,
           image_path = Some ''B100-style-1736072130000.png''\<rparr>],
       uploads = [''uploads/B100-style-1736072130000.png'' \<mapsto> ''PNG''],
       folders = [''.'', ''uploads''],
       pending = [],
       effects = [FileWritten ''uploads/B100-style-1736072130000.png'',
                  Executed (InsertOrder ''B100'')]\<rparr>)"
  by (simp add: eval_defs)

lemma pending_sample:
  "fst (get_pending shop_env None None busy_shop) =
     Response 200 (PendingRows [pending_projection row_B101, pending_projection row_B100])"
  by (simp add: get_pending_def execute_select_pending_def executed_def pending_between_def
        or_default_def Let_def sample_defs)

lemma all_sample:
  "fst (get_orders shop_env busy_shop) =
     Response 200
       (AllRows [all_projection row_B103, all_projection row_B102,
                 all_projection row_B101, all_projection row_B100])"
  by (simp add: get_orders_def execute_select_all_def executed_def Let_def sample_defs)

text \<open>\<open>path.join\<close> on a few file names.\<close>

lemma path_join_samples:
  "path_join destination ''B100-style-1736072130000.png''
     = ''uploads/B100-style-1736072130000.png''"
  "path_join destination ''./B7-style-1736072130000.png''
     = ''uploads/B7-style-1736072130000.png''"
  "path_join destination ''../B7-style-1736072130000.png'' = ''B7-style-1736072130000.png''"
  "path_join destination ''24/117-style-1736072130000.png''
     = ''uploads/24/117-style-1736072130000.png''"
  by (simp_all add: path_join_def normalize_path_def destination_def)

subsection \<open>Creating an order\<close>

text \<open>What a 201 answer of \<open>POST /api/orders\<close> means for the request and the table.\<close>

lemma post_orders_created:
  assumes "post_orders e req s = (rsp, s')" and "status_code rsp = 201"
  shows "\<exists>b dd. body_bill_number req = Some b \<and> b \<noteq> [] \<and>
           body_delivery_date req = Some dd \<and> dd \<noteq> [] \<and>
           rsp = Response 201 (CreatedBody ''Order created successfully.'' b) \<and>
           orders s' = orders s @
             [\<lparr>bill_number = b,
               bill_date = takeWhile (\<lambda>c. c \<noteq> CHR ''T'') (now_iso e),
               delivery_date = dd,
               notes = Some (case body_notes req of None \<Rightarrow> [] | Some n \<Rightarrow> n),
               status = Pending, customer_name = ''N/A'', total_amount = 0,
               completion_date = None,
               image_path = (case style_image req of None \<Rightarrow> None
                                | Some up \<Rightarrow> Some (storage_filename e up))\<rparr>]"
  using assms
  by (auto simp: post_defs falsy_def or_default_def split: option.splits if_splits)

text \<open>The middleware when the write (if there is one) works.\<close>

lemma upload_single_ok:
  assumes "\<forall>up. style_image r = Some up \<longrightarrow>
             \<not> write_fails e (folders s) (path_join destination (storage_filename e up))"
  shows "\<exists>f s1. upload_single e r s = (Some f, s1) \<and> orders s1 = orders s
           \<and> folders s1 = folders s \<and> pending s1 = pending s
           \<and> (\<forall>up. style_image r = Some up \<longrightarrow>
                 f = Some \<lparr>filename = storage_filename e up,
                           path = path_join destination (storage_filename e up)\<rparr>)"
  using assms by (cases "style_image r") (simp_all add: upload_single_def Let_def)

lemma post_orders_after_upload:
  "upload_single e r s = (Some f, s1) \<Longrightarrow> post_orders e r s = create_order e r f s1"
  by (simp add: post_orders_def)

lemma folders_post_orders: "folders (snd (post_orders e r s)) = folders s"
  by (auto simp: post_defs split: option.splits if_splits)

lemma create_order_fresh:
  assumes "db_fault e = None" and "body_bill_number r = Some b" and "b \<noteq> []"
    and "\<not> falsy (body_delivery_date r)" and "b \<notin> set (map bill_number (orders s))"
  shows "status_code (fst (create_order e r f s)) = 201
         \<and> b \<in> set (map bill_number (orders (snd (create_order e r f s))))"
  using assms
  by (simp add: create_order_def execute_insert_def executed_def insert_row_def Let_def
        falsy_def or_default_def)

lemma create_order_duplicate:
  assumes "db_fault e = None" and "body_bill_number r = Some b" and "b \<noteq> []"
    and "\<not> falsy (body_delivery_date r)" and "b \<in> set (map bill_number (orders s))"
  shows "status_code (fst (create_order e r f s)) = 409
         \<and> orders (snd (create_order e r f s)) = orders s
         \<and> (dup_raises e \<longrightarrow>
              (\<forall>i. f = Some i \<longrightarrow> path i \<in> set (pending (snd (create_order e r f s)))))"
  using assms
  by (cases f)
     (simp_all add: create_order_def execute_insert_def executed_def insert_row_def Let_def
        falsy_def or_default_def cleanup_def fs_unlink_def)

text \<open>Two requests in a row for the same unused bill number, on a row store that works
  and with images that can be stored: the first is answered 201 and the second 409;
  when the row store rejects the duplicate with \<open>ER_DUP_ENTRY\<close>, the removal of the
  second request's image is started, and the image is gone once it has completed
  without error.\<close>

lemma second_create_conflicts:
  assumes "db_fault e1 = None" and "db_fault e2 = None"
    and "\<forall>up. style_image r1 = Some up \<longrightarrow>
           \<not> write_fails e1 (folders s) (path_join destination (storage_filename e1 up))"
    and "\<forall>up. style_image r2 = Some up \<longrightarrow>
           \<not> write_fails e2 (folders s) (path_join destination (storage_filename e2 up))"
    and "body_bill_number r1 = Some b" and "body_bill_number r2 = Some b" and "b \<noteq> []"
    and "\<not> falsy (body_delivery_date r1)" and "\<not> falsy (body_delivery_date r2)"
    and "b \<notin> set (map bill_number (orders s))"
  shows "status_code (fst (post_orders e1 r1 s)) = 201
         \<and> status_code (fst (post_orders e2 r2 (snd (post_orders e1 r1 s)))) = 409
         \<and> orders (snd (post_orders e2 r2 (snd (post_orders e1 r1 s))))
             = orders (snd (post_orders e1 r1 s))
         \<and> (dup_raises e2 \<longrightarrow>
              (\<forall>up e3. style_image r2 = Some up \<and> \<not> unlink_fault e3 \<longrightarrow>
                 uploads (settle e3 (snd (post_orders e2 r2 (snd (post_orders e1 r1 s)))))
                   (path_join destination (storage_filename e2 up)) = None))"
proof -
  define m where "m = snd (post_orders e1 r1 s)"
  define res where "res = post_orders e2 r2 m"
  from upload_single_ok [OF assms(3)] obtain f1 s1 where
    u1: "upload_single e1 r1 s = (Some f1, s1)" and o1: "orders s1 = orders s"
    by blast
  have p1: "post_orders e1 r1 s = create_order e1 r1 f1 s1"
    by (rule post_orders_after_upload [OF u1])
  from assms(10) o1 have fresh: "b \<notin> set (map bill_number (orders s1))"
    by simp
  note a = create_order_fresh [OF assms(1) assms(5) assms(7) assms(8) fresh, of f1]
  have first: "status_code (fst (post_orders e1 r1 s)) = 201"
    unfolding p1 by (rule a [THEN conjunct1])
  have there: "b \<in> set (map bill_number (orders m))"
    unfolding m_def p1 by (rule a [THEN conjunct2])
  have fm: "folders m = folders s"
    unfolding m_def by (rule folders_post_orders)
  from assms(4) have w2: "\<forall>up. style_image r2 = Some up \<longrightarrow>
           \<not> write_fails e2 (folders m) (path_join destination (storage_filename e2 up))"
    by (simp only: fm)
  from upload_single_ok [OF w2] obtain f2 s2 where
    u2: "upload_single e2 r2 m = (Some f2, s2)" and o2: "orders s2 = orders m"
    and i2: "\<forall>up. style_image r2 = Some up \<longrightarrow>
                 f2 = Some \<lparr>filename = storage_filename e2 up,
                            path = path_join destination (storage_filename e2 up)\<rparr>"
    by blast
  have p2: "res = create_order e2 r2 f2 s2"
    unfolding res_def by (rule post_orders_after_upload [OF u2])
  from there o2 have dup: "b \<in> set (map bill_number (orders s2))"
    by (simp only:)
  note d = create_order_duplicate [OF assms(2) assms(6) assms(7) assms(9) dup, of f2]
  have c: "status_code (fst res) = 409"
    unfolding p2 by (rule d [THEN conjunct1])
  have "orders (snd res) = orders s2"
    unfolding p2 by (rule d [THEN conjunct2, THEN conjunct1])
  with o2 have k: "orders (snd res) = orders m"
    by (simp only:)
  have g: "dup_raises e2 \<longrightarrow>
              (\<forall>i. f2 = Some i \<longrightarrow> path i \<in> set (pending (snd res)))"
    unfolding p2 by (rule d [THEN conjunct2, THEN conjunct2])
  have gone: "dup_raises e2 \<longrightarrow>
              (\<forall>up e3. style_image r2 = Some up \<and> \<not> unlink_fault e3 \<longrightarrow>
                 uploads (settle e3 (snd res))
                   (path_join destination (storage_filename e2 up)) = None)"
  proof (intro impI allI)
    fix up and e3 :: env
    assume r: "dup_raises e2" and i: "style_image r2 = Some up \<and> \<not> unlink_fault e3"
    have "f2 = Some \<lparr>filename = storage_filename e2 up,
                      path = path_join destination (storage_filename e2 up)\<rparr>"
      by (rule i2 [rule_format]) (rule i [THEN conjunct1])
    with g r have "path \<lparr>filename = storage_filename e2 up,
               path = path_join destination (storage_filename e2 up)\<rparr>
             \<in> set (pending (snd res))"
      by blast
    then have "path_join destination (storage_filename e2 up) \<in> set (pending (snd res))"
      by simp
    with i show "uploads (settle e3 (snd res))
                   (path_join destination (storage_filename e2 up)) = None"
      by (simp add: settle_removes)
  qed
  from first c k gone show ?thesis
    unfolding res_def m_def by (intro conjI)
qed

text \<open>
  Claim C1, at a failing input. Bill B100 is in the table and a second request for B100
  comes with an image. On a row store that reports the duplicate by \<open>affectedRows = 0\<close>
  the answer is 409, no row is added, and the image written for this attempt is still
  in \<open>uploads/\<close>, with no removal started for it, so that it stays there: the branch
  \<open>result.affectedRows === 0\<close> returns without \<open>fs.unlink\<close>. On a row store that
  rejects with \<open>ER_DUP_ENTRY\<close> the same request is answered 409 and the \<open>catch\<close>
  branch starts the removal of the image, which is gone once the removal has
  completed.
\<close>

theorem duplicate_without_raise_leaves_artifact:
  "status_code (fst (post_orders quiet_env order_B100 shop_with_B100)) = 409
   \<and> orders (snd (post_orders quiet_env order_B100 shop_with_B100)) = [row_B100]
   \<and> uploads (snd (post_orders quiet_env order_B100 shop_with_B100))
        ''uploads/B100-style-1736072130000.png'' = Some ''PNG''
   \<and> pending (snd (post_orders quiet_env order_B100 shop_with_B100)) = []
   \<and> uploads (settle quiet_env (snd (post_orders quiet_env order_B100 shop_with_B100)))
        ''uploads/B100-style-1736072130000.png'' = Some ''PNG''
   \<and> status_code (fst (post_orders shop_env order_B100 shop_with_B100)) = 409
   \<and> pending (snd (post_orders shop_env order_B100 shop_with_B100))
        = [''uploads/B100-style-1736072130000.png'']
   \<and> uploads (settle shop_env (snd (post_orders shop_env order_B100 shop_with_B100)))
        ''uploads/B100-style-1736072130000.png'' = None"
  by (simp add: eval_defs)

text \<open>
  Claim C4, as the code has it, at concrete requests. \<open>undated_order\<close> has no
  \<open>delivery_date\<close>; its image cannot be stored (the bill number puts the file in a
  folder that does not exist) and the request is answered 500, not 400.
  \<open>unnamed_order\<close> has no \<open>bill_number\<close> and is answered 400; when the answer is
  sent the removal of its image has only been started and the image is still stored,
  and it stays stored when the removal fails.
\<close>

theorem invalid_request_500_and_artifact_left:
  "(body_delivery_date undated_order = None
    \<and> status_code (fst (post_orders shop_env undated_order empty_shop)) = 500)
   \<and> (body_bill_number unnamed_order = None
      \<and> status_code (fst (post_orders shop_env unnamed_order empty_shop)) = 400
      \<and> uploads (snd (post_orders shop_env unnamed_order empty_shop))
           ''uploads/temp-style-1736072130000.png'' = Some ''PNG''
      \<and> uploads (settle stuck_env (snd (post_orders shop_env unnamed_order empty_shop)))
           ''uploads/temp-style-1736072130000.png'' = Some ''PNG'')"
  by (simp add: eval_defs)

text \<open>
  Claim C4, amended. Take a request whose \<open>bill_number\<close> or \<open>delivery_date\<close> is missing
  or empty. No order row is inserted. When no image is attached, or the attached image
  could be stored, the request is answered 400; an image that was stored is still in
  storage when the answer is sent: the handler has started its removal and has not
  waited for it. Once that removal has completed without error no file is left at the
  path of the image; a removal that fails is only logged and leaves the file. When the
  attached image cannot be stored, the request is answered 500 before any validation.
\<close>

theorem validation_failure_cleans_up:
  assumes "body_bill_number req = None \<or> body_bill_number req = Some []
           \<or> body_delivery_date req = None \<or> body_delivery_date req = Some []"
    and "post_orders e req s = (rsp, s')"
  shows "orders s' = orders s
         \<and> (style_image req = None \<longrightarrow>
               rsp = Response 400 (ErrorBody ''Bill number and delivery date are required.'')
               \<and> uploads s' = uploads s \<and> pending s' = pending s
               \<and> effects s' = effects s)
         \<and> (\<forall>up p. style_image req = Some up
                   \<and> p = path_join destination (storage_filename e up) \<longrightarrow>
               (if write_fails e (folders s) p
                then status_code rsp = 500
                     \<and> uploads s' = uploads s \<and> pending s' = pending s
                     \<and> effects s' = effects s
                else rsp = Response 400
                             (ErrorBody ''Bill number and delivery date are required.'')
                     \<and> uploads s' = (uploads s)(p \<mapsto> content up)
                     \<and> pending s' = pending s @ [p]
                     \<and> effects s' = effects s @ [FileWritten p, UnlinkStarted p]
                     \<and> (\<forall>e'. \<not> unlink_fault e' \<longrightarrow> uploads (settle e' s') p = None)
                     \<and> (\<forall>e'. unlink_fault e' \<longrightarrow>
                            uploads (settle e' s') p = Some (content up))))"
proof -
  have rows: "orders s' = orders s"
    using assms by (auto simp: post_defs falsy_def split: option.splits if_splits)
  have bare: "style_image req = None \<longrightarrow>
               rsp = Response 400 (ErrorBody ''Bill number and delivery date are required.'')
               \<and> uploads s' = uploads s \<and> pending s' = pending s
               \<and> effects s' = effects s"
    using assms by (auto simp: post_defs falsy_def)
  have img: "(if write_fails e (folders s) p
                then status_code rsp = 500
                     \<and> uploads s' = uploads s \<and> pending s' = pending s
                     \<and> effects s' = effects s
                else rsp = Response 400
                             (ErrorBody ''Bill number and delivery date are required.'')
                     \<and> uploads s' = (uploads s)(p \<mapsto> content up)
                     \<and> pending s' = pending s @ [p]
                     \<and> effects s' = effects s @ [FileWritten p, UnlinkStarted p]
                     \<and> (\<forall>e'. \<not> unlink_fault e' \<longrightarrow> uploads (settle e' s') p = None)
                     \<and> (\<forall>e'. unlink_fault e' \<longrightarrow>
                            uploads (settle e' s') p = Some (content up)))"
    if up: "style_image req = Some up"
      and p: "p = path_join destination (storage_filename e up)" for up p
  proof (cases "write_fails e (folders s) p")
    case True
    with assms up p show ?thesis
      by (auto simp: post_defs)
  next
    case False
    with assms up p have
      r: "rsp = Response 400 (ErrorBody ''Bill number and delivery date are required.'')"
      and u: "uploads s' = (uploads s)(p \<mapsto> content up)"
      and q: "pending s' = pending s @ [p]"
      and f: "effects s' = effects s @ [FileWritten p, UnlinkStarted p]"
      by (auto simp: post_defs falsy_def)
    from q have mem: "p \<in> set (pending s')"
      by simp
    have gone: "\<forall>e'. \<not> unlink_fault e' \<longrightarrow> uploads (settle e' s') p = None"
      using mem by (simp add: settle_removes)
    have stays: "\<forall>e'. unlink_fault e' \<longrightarrow> uploads (settle e' s') p = Some (content up)"
      using u by (simp add: settle_keeps)
    from False r u q f gone stays show ?thesis
      by simp
  qed
  from rows bare img show ?thesis
    by blast
qed

theorem validation_failure_cleans_up_witness:
  "body_bill_number unnamed_order = None
   \<and> style_image unnamed_order = Some (sketch\<lparr>bill_number_at_upload := None\<rparr>)
   \<and> \<not> write_fails shop_env (folders empty_shop)
         (path_join destination
            (storage_filename shop_env (sketch\<lparr>bill_number_at_upload := None\<rparr>)))
   \<and> fst (post_orders shop_env unnamed_order empty_shop) =
       Response 400 (ErrorBody ''Bill number and delivery date are required.'')
   \<and> orders (snd (post_orders shop_env unnamed_order empty_shop)) = orders empty_shop
   \<and> \<not> unlink_fault shop_env
   \<and> uploads (settle shop_env (snd (post_orders shop_env unnamed_order empty_shop)))
        (path_join destination
           (storage_filename shop_env (sketch\<lparr>bill_number_at_upload := None\<rparr>))) = None
   \<and> body_delivery_date undated_order = None
   \<and> style_image undated_order = Some (sketch\<lparr>bill_number_at_upload := Some ''24/117''\<rparr>)
   \<and> write_fails shop_env (folders empty_shop)
         (path_join destination
            (storage_filename shop_env (sketch\<lparr>bill_number_at_upload := Some ''24/117''\<rparr>)))
   \<and> status_code (fst (post_orders shop_env undated_order empty_shop)) = 500"
proof -
  let ?up = "sketch\<lparr>bill_number_at_upload := None\<rparr>"
  let ?p = "path_join destination (storage_filename shop_env ?up)"
  let ?r = "post_orders shop_env unnamed_order empty_shop"
  have h1: "body_bill_number unnamed_order = None \<or> body_bill_number unnamed_order = Some []
    \<or> body_delivery_date unnamed_order = None \<or> body_delivery_date unnamed_order = Some []"
    and b: "body_bill_number unnamed_order = None"
    and img: "style_image unnamed_order = Some ?up"
    by (simp_all add: unnamed_order_def)
  have h2: "?r = (fst ?r, snd ?r)"
    by simp
  have w: "\<not> write_fails shop_env (folders empty_shop) ?p"
    by (simp add: eval_defs)
  have nf: "\<not> unlink_fault shop_env"
    by (simp add: shop_env_def)
  note t = validation_failure_cleans_up [OF h1 h2]
  from t have rows: "orders (snd ?r) = orders empty_shop"
    by blast
  from t img have "if write_fails shop_env (folders empty_shop) ?p
      then status_code (fst ?r) = 500
           \<and> uploads (snd ?r) = uploads empty_shop \<and> pending (snd ?r) = pending empty_shop
           \<and> effects (snd ?r) = effects empty_shop
      else fst ?r = Response 400 (ErrorBody ''Bill number and delivery date are required.'')
           \<and> uploads (snd ?r) = (uploads empty_shop)(?p \<mapsto> content ?up)
           \<and> pending (snd ?r) = pending empty_shop @ [?p]
           \<and> effects (snd ?r) = effects empty_shop @ [FileWritten ?p, UnlinkStarted ?p]
           \<and> (\<forall>e'. \<not> unlink_fault e' \<longrightarrow> uploads (settle e' (snd ?r)) ?p = None)
           \<and> (\<forall>e'. unlink_fault e' \<longrightarrow> uploads (settle e' (snd ?r)) ?p = Some (content ?up))"
    by blast
  with w have a: "fst ?r = Response 400 (ErrorBody ''Bill number and delivery date are required.'')"
    and g: "\<forall>e'. \<not> unlink_fault e' \<longrightarrow> uploads (settle e' (snd ?r)) ?p = None"
    by simp_all
  from g nf have gone: "uploads (settle shop_env (snd ?r)) ?p = None"
    by blast
  let ?up2 = "sketch\<lparr>bill_number_at_upload := Some ''24/117''\<rparr>"
  let ?p2 = "path_join destination (storage_filename shop_env ?up2)"
  let ?v = "post_orders shop_env undated_order empty_shop"
  have k1: "body_bill_number undated_order = None \<or> body_bill_number undated_order = Some []
    \<or> body_delivery_date undated_order = None \<or> body_delivery_date undated_order = Some []"
    and d: "body_delivery_date undated_order = None"
    and img2: "style_image undated_order = Some ?up2"
    by (simp_all add: undated_order_def)
  have k2: "?v = (fst ?v, snd ?v)"
    by simp
  have w2: "write_fails shop_env (folders empty_shop) ?p2"
    by (simp add: eval_defs)
  from validation_failure_cleans_up [OF k1 k2] img2
  have "if write_fails shop_env (folders empty_shop) ?p2
      then status_code (fst ?v) = 500
           \<and> uploads (snd ?v) = uploads empty_shop \<and> pending (snd ?v) = pending empty_shop
           \<and> effects (snd ?v) = effects empty_shop
      else fst ?v = Response 400 (ErrorBody ''Bill number and delivery date are required.'')
           \<and> uploads (snd ?v) = (uploads empty_shop)(?p2 \<mapsto> content ?up2)
           \<and> pending (snd ?v) = pending empty_shop @ [?p2]
           \<and> effects (snd ?v) = effects empty_shop @ [FileWritten ?p2, UnlinkStarted ?p2]
           \<and> (\<forall>e'. \<not> unlink_fault e' \<longrightarrow> uploads (settle e' (snd ?v)) ?p2 = None)
           \<and> (\<forall>e'. unlink_fault e' \<longrightarrow> uploads (settle e' (snd ?v)) ?p2 = Some (content ?up2))"
    by blast
  with w2 have c: "status_code (fst ?v) = 500"
    by simp
  from b img w a rows nf gone d img2 w2 c show ?thesis
    by (intro conjI)
qed

text \<open>
  Claim C6. When \<open>POST /api/orders\<close> answers 201, the table has one more row, the last:
  its status is Pending, its \<open>bill_date\<close> is the date part of the server's clock, its
  notes are the notes sent, or the empty string (not NULL) when none were sent,
  \<open>customer_name\<close> is 'N/A' and \<open>total_amount\<close> is 0.00 whatever was sent,
  \<open>completion_date\<close> is NULL, and \<open>image_path\<close> is NULL when no image came with the
  request and the stored file's name otherwise.
\<close>

theorem created_order_fields:
  assumes "post_orders e req s = (rsp, s')" and "status_code rsp = 201"
  shows "\<exists>b dd. body_bill_number req = Some b \<and> body_delivery_date req = Some dd \<and>
           orders s' = orders s @
             [\<lparr>bill_number = b,
               bill_date = takeWhile (\<lambda>c. c \<noteq> CHR ''T'') (now_iso e),
               delivery_date = dd,
               notes = Some (case body_notes req of None \<Rightarrow> [] | Some n \<Rightarrow> n),
               status = Pending, customer_name = ''N/A'', total_amount = 0,
               completion_date = None,
               image_path = (case style_image req of None \<Rightarrow> None
                                | Some up \<Rightarrow> Some (storage_filename e up))\<rparr>]"
  using post_orders_created [OF assms] by blast

theorem created_order_fields_witness:
  "status_code (fst (post_orders shop_env (order_B100\<lparr>style_image := None\<rparr>) empty_shop)) = 201
   \<and> orders (snd (post_orders shop_env (order_B100\<lparr>style_image := None\<rparr>) empty_shop)) =
       [\<lparr>bill_number = ''B100'', bill_date = ''2025-01-05'', delivery_date = ''2025-01-10'',
         notes = Some [], status = Pending, customer_name = ''N/A'', total_amount = 0,
         completion_date = None, image_path = None\<rparr>]"
proof -
  let ?req = "order_B100\<lparr>style_image := None\<rparr>"
  have h1: "post_orders shop_env ?req empty_shop =
              (fst (post_orders shop_env ?req empty_shop),
               snd (post_orders shop_env ?req empty_shop))"
    by simp
  have h2: "status_code (fst (post_orders shop_env ?req empty_shop)) = 201"
    by (simp add: eval_defs)
  from created_order_fields [OF h1 h2] h2 show ?thesis
    by (auto simp: sample_defs)
qed

text \<open>
  Claim C9. Whenever \<open>POST /api/orders\<close> answers anything but 201 (the 400 of the
  validation, the 409 of a duplicate, the 500 of a failing row store or disk), the
  table holds exactly the rows it held before.
\<close>

theorem create_failure_adds_no_row:
  "status_code (fst (post_orders e req s)) \<noteq> 201 \<Longrightarrow>
   orders (snd (post_orders e req s)) = orders s"
  by (auto simp: post_defs split: option.splits if_splits)

theorem create_failure_adds_no_row_witness:
  "status_code (fst (post_orders shop_env order_B100 shop_with_B100)) \<noteq> 201
   \<and> orders (snd (post_orders shop_env order_B100 shop_with_B100)) = orders shop_with_B100"
proof -
  have h: "status_code (fst (post_orders shop_env order_B100 shop_with_B100)) \<noteq> 201"
    by (simp add: eval_defs)
  from create_failure_adds_no_row [OF h] h show ?thesis
    by simp
qed

text \<open>
  Claim C7, as the code has it, at a concrete request: \<open>unnamed_order\<close> has no
  \<open>bill_number\<close> and is answered 400, yet after the middleware its image is a file of
  \<open>uploads/\<close>. The file is written first; the failed validation then starts its
  removal.
\<close>

theorem artifact_stored_before_validation:
  "status_code (fst (post_orders shop_env unnamed_order empty_shop)) = 400
   \<and> uploads (snd (upload_single shop_env unnamed_order empty_shop))
        ''uploads/temp-style-1736072130000.png'' = Some ''PNG''
   \<and> effects (snd (post_orders shop_env unnamed_order empty_shop)) =
        [FileWritten ''uploads/temp-style-1736072130000.png'',
         UnlinkStarted ''uploads/temp-style-1736072130000.png'']"
  by (simp add: eval_defs)

text \<open>
  Claim C7, amended. In every request to \<open>POST /api/orders\<close> the steps run in the
  order: the image, when one is attached and can be stored, is written to storage
  first, whether or not the fields are valid; then the fields are validated; then,
  only when they are valid, the insert is sent to the row store. No file is written
  later than as the first effect. For a request that fails validation no row is added
  and no statement is sent; the handler starts the removal of the file written for
  the request and answers without waiting for it, and no file is left at that path
  once the removal has completed without error.
\<close>

theorem create_order_step_order:
  assumes "post_orders e req s = (rsp, s')"
  shows "\<exists>new. effects s' = effects s @ new
           \<and> (\<forall>up. style_image req = Some up
                  \<and> \<not> write_fails e (folders s)
                        (path_join destination (storage_filename e up)) \<longrightarrow>
                 new \<noteq> []
                 \<and> hd new = FileWritten (path_join destination (storage_filename e up)))
           \<and> (\<forall>i < length new. \<forall>p. new ! i = FileWritten p \<longrightarrow> i = 0)
           \<and> (\<forall>q. Executed q \<in> set new \<longrightarrow>
                 \<not> falsy (body_bill_number req) \<and> \<not> falsy (body_delivery_date req)
                 \<and> (\<exists>b. body_bill_number req = Some b \<and> q = InsertOrder b))
           \<and> (falsy (body_bill_number req) \<or> falsy (body_delivery_date req) \<longrightarrow>
                 status_code rsp \<noteq> 201 \<and> orders s' = orders s
                 \<and> (\<forall>p. FileWritten p \<in> set new \<longrightarrow>
                       new = [FileWritten p, UnlinkStarted p]
                       \<and> p \<in> set (pending s')
                       \<and> (\<forall>e'. \<not> unlink_fault e' \<longrightarrow>
                              uploads (settle e' s') p = None)))"
proof -
  have two: "\<And>i. i < 2 \<Longrightarrow> i = 0 \<or> i = (1::nat)" by arith
  have three: "\<And>i. i < 3 \<Longrightarrow> i = 0 \<or> i = 1 \<or> i = (2::nat)" by arith
  show ?thesis
  proof (cases "style_image req")
    case None
    show ?thesis
    proof (cases "falsy (body_bill_number req) \<or> falsy (body_delivery_date req)")
      case True
      with None assms show ?thesis
        by (auto simp: post_defs)
    next
      case False
      with None assms show ?thesis
        by (auto simp: post_defs falsy_def or_default_def nth_Cons
                 split: option.splits if_splits nat.splits)
    qed
  next
    case (Some up)
    show ?thesis
    proof (cases "write_fails e (folders s) (path_join destination (storage_filename e up))")
      case True
      with Some assms show ?thesis
        by (auto simp: post_defs)
    next
      case nd: False
      show ?thesis
      proof (cases "falsy (body_bill_number req) \<or> falsy (body_delivery_date req)")
        case True
        with Some nd assms show ?thesis
          by (auto simp: post_defs nth_Cons settle_removes dest!: two split: nat.splits)
      next
        case False
        with Some nd assms show ?thesis
          by (auto simp: post_defs falsy_def or_default_def nth_Cons
                   dest!: two three split: option.splits if_splits nat.splits)
      qed
    qed
  qed
qed

theorem create_order_step_order_witness:
  "falsy (body_bill_number unnamed_order)
   \<and> style_image unnamed_order = Some (sketch\<lparr>bill_number_at_upload := None\<rparr>)
   \<and> \<not> write_fails shop_env (folders empty_shop)
         (path_join destination
            (storage_filename shop_env (sketch\<lparr>bill_number_at_upload := None\<rparr>)))
   \<and> status_code (fst (post_orders shop_env unnamed_order empty_shop)) \<noteq> 201
   \<and> effects (snd (post_orders shop_env unnamed_order empty_shop)) =
       effects empty_shop @
       [FileWritten (path_join destination
                       (storage_filename shop_env (sketch\<lparr>bill_number_at_upload := None\<rparr>))),
        UnlinkStarted (path_join destination
                       (storage_filename shop_env (sketch\<lparr>bill_number_at_upload := None\<rparr>)))]
   \<and> \<not> unlink_fault shop_env
   \<and> uploads (settle shop_env (snd (post_orders shop_env unnamed_order empty_shop)))
       (path_join destination
          (storage_filename shop_env (sketch\<lparr>bill_number_at_upload := None\<rparr>))) = None
   \<and> Executed (InsertOrder ''B100'')
       \<in> set (effects (snd (post_orders shop_env order_B100 empty_shop)))
   \<and> \<not> falsy (body_bill_number order_B100) \<and> \<not> falsy (body_delivery_date order_B100)"
proof -
  let ?up = "sketch\<lparr>bill_number_at_upload := None\<rparr>"
  let ?p = "path_join destination (storage_filename shop_env ?up)"
  let ?r = "post_orders shop_env unnamed_order empty_shop"
  have p1: "?r = (fst ?r, snd ?r)" by simp
  have f: "falsy (body_bill_number unnamed_order)"
    by (simp add: falsy_def unnamed_order_def)
  have i: "style_image unnamed_order = Some ?up"
    by (simp add: unnamed_order_def)
  have w: "\<not> write_fails shop_env (folders empty_shop) ?p"
    by (simp add: eval_defs)
  have nf: "\<not> unlink_fault shop_env"
    by (simp add: shop_env_def)
  from create_order_step_order [OF p1] obtain new where
    n1: "effects (snd ?r) = effects empty_shop @ new"
    and n2: "\<forall>up. style_image unnamed_order = Some up
                  \<and> \<not> write_fails shop_env (folders empty_shop)
                        (path_join destination (storage_filename shop_env up)) \<longrightarrow>
               new \<noteq> []
               \<and> hd new = FileWritten (path_join destination (storage_filename shop_env up))"
    and n5: "falsy (body_bill_number unnamed_order) \<or> falsy (body_delivery_date unnamed_order)
             \<longrightarrow> status_code (fst ?r) \<noteq> 201 \<and> orders (snd ?r) = orders empty_shop
                 \<and> (\<forall>p. FileWritten p \<in> set new \<longrightarrow>
                       new = [FileWritten p, UnlinkStarted p]
                       \<and> p \<in> set (pending (snd ?r))
                       \<and> (\<forall>e'. \<not> unlink_fault e' \<longrightarrow>
                              uploads (settle e' (snd ?r)) p = None))"
    by blast
  from n2 i w have "new \<noteq> []" and "hd new = FileWritten ?p"
    by blast+
  then have m: "FileWritten ?p \<in> set new"
    by (metis hd_in_set)
  from n5 f m have a: "status_code (fst ?r) \<noteq> 201"
    and b: "new = [FileWritten ?p, UnlinkStarted ?p]"
    and g: "\<forall>e'. \<not> unlink_fault e' \<longrightarrow> uploads (settle e' (snd ?r)) ?p = None"
    by blast+
  from g nf have c: "uploads (settle shop_env (snd ?r)) ?p = None"
    by blast
  from n1 b have n: "effects (snd ?r) = effects empty_shop @ [FileWritten ?p, UnlinkStarted ?p]"
    by simp
  let ?v = "post_orders shop_env order_B100 empty_shop"
  have p2: "?v = (fst ?v, snd ?v)" by simp
  have ex: "Executed (InsertOrder ''B100'') \<in> set (effects (snd ?v))"
    by (simp add: create_sample)
  from create_order_step_order [OF p2] obtain new2 where
    v1: "effects (snd ?v) = effects empty_shop @ new2"
    and v4: "\<forall>q. Executed q \<in> set new2 \<longrightarrow>
               \<not> falsy (body_bill_number order_B100) \<and> \<not> falsy (body_delivery_date order_B100)
               \<and> (\<exists>b. body_bill_number order_B100 = Some b \<and> q = InsertOrder b)"
    by blast
  from v1 ex have "Executed (InsertOrder ''B100'') \<in> set new2"
    by (simp add: empty_shop_def)
  with v4 have d: "\<not> falsy (body_bill_number order_B100)"
    "\<not> falsy (body_delivery_date order_B100)"
    by blast+
  from f i w a n nf c ex d show ?thesis
    by (intro conjI)
qed

subsection \<open>Completing an order\<close>

text \<open>The answer and the new table of \<open>PUT /api/orders/:billNumber/complete\<close> on a row
  store that executes the statement.\<close>

lemma put_complete_ok:
  assumes nf: "db_fault e = None"
  shows "put_complete e b s =
     (if \<exists>r \<in> set (orders s). eligible b r
      then (Response 200
              (MessageBody (''Bill '' @ b @ '' marked as Complete and ready for pickup.'')),
            s\<lparr>effects := effects s @ [Executed (UpdateComplete b)],
              orders := map (\<lambda>r. if eligible b r
                            then r\<lparr>status := Complete, completion_date := Some (sql_now e)\<rparr>
                            else r) (orders s)\<rparr>)
      else (Response 404 (MessageBody ''Order not found or status not updated.''),
            s\<lparr>effects := effects s @ [Executed (UpdateComplete b)]\<rparr>))"
proof (cases "\<exists>r \<in> set (orders s). eligible b r")
  case True
  then have "length (filter (eligible b) (orders s)) \<noteq> 0"
    by (simp add: filter_empty_conv)
  with True nf show ?thesis
    by (simp add: put_complete_def execute_complete_def executed_def Let_def)
next
  case False
  then have z: "length (filter (eligible b) (orders s)) = 0"
    by (simp add: filter_empty_conv)
  from False have "map (\<lambda>r. if eligible b r
                            then r\<lparr>status := Complete, completion_date := Some (sql_now e)\<rparr>
                            else r) (orders s) = orders s"
    by (intro map_idI) auto
  with False z nf show ?thesis
    by (simp add: put_complete_def execute_complete_def executed_def Let_def)
qed

text \<open>
  Claim C2. On a row store that executes the statement, \<open>completeOrder(billNumber)\<close>
  answers 200 and sets status to Complete and \<open>completion_date\<close> to the row store's
  current time on the rows with that bill number that are not yet Complete, exactly
  when there is such a row; when there is none (no order with that bill number, or
  already Complete) it answers 404 and the table is unchanged. Either way a further
  \<open>completeOrder\<close> on the same bill number answers 404 and changes nothing.
\<close>

theorem complete_order_iff:
  assumes "db_fault e = None" and "put_complete e b s = (rsp, s')"
  shows "(if \<exists>r \<in> set (orders s). bill_number r = b \<and> status r \<noteq> Complete
          then status_code rsp = 200
               \<and> orders s' =
                   map (\<lambda>r. if bill_number r = b \<and> status r \<noteq> Complete
                            then r\<lparr>status := Complete, completion_date := Some (sql_now e)\<rparr>
                            else r) (orders s)
          else status_code rsp = 404 \<and> orders s' = orders s)
         \<and> uploads s' = uploads s
         \<and> (\<forall>e2. db_fault e2 = None \<longrightarrow>
                status_code (fst (put_complete e2 b s')) = 404
                \<and> orders (snd (put_complete e2 b s')) = orders s')"
proof -
  have again: "\<not> (\<exists>r \<in> set (orders s'). eligible b r)"
    using assms by (auto simp: put_complete_ok eligible_def split: if_splits)
  have second: "\<forall>e2. db_fault e2 = None \<longrightarrow>
                status_code (fst (put_complete e2 b s')) = 404
                \<and> orders (snd (put_complete e2 b s')) = orders s'"
    using again by (simp add: put_complete_ok)
  have first: "(if \<exists>r \<in> set (orders s). bill_number r = b \<and> status r \<noteq> Complete
          then status_code rsp = 200
               \<and> orders s' =
                   map (\<lambda>r. if bill_number r = b \<and> status r \<noteq> Complete
                            then r\<lparr>status := Complete, completion_date := Some (sql_now e)\<rparr>
                            else r) (orders s)
          else status_code rsp = 404 \<and> orders s' = orders s)
         \<and> uploads s' = uploads s"
    using assms by (auto simp: put_complete_ok eligible_def split: if_splits)
  from first second show ?thesis by blast
qed

theorem complete_order_iff_witness:
  "db_fault shop_env = None
   \<and> (\<exists>r \<in> set (orders busy_shop). bill_number r = ''B100'' \<and> status r \<noteq> Complete)
   \<and> status_code (fst (put_complete shop_env ''B100'' busy_shop)) = 200
   \<and> orders (snd (put_complete shop_env ''B100'' busy_shop)) =
       [row_B100\<lparr>status := Complete, completion_date := Some 1736072130\<rparr>,
        row_B101, row_B102, row_B103]
   \<and> status_code
       (fst (put_complete shop_env ''B100'' (snd (put_complete shop_env ''B100'' busy_shop))))
       = 404"
proof -
  let ?r = "put_complete shop_env ''B100'' busy_shop"
  have h1: "db_fault shop_env = None"
    by (simp add: shop_env_def)
  have h2: "?r = (fst ?r, snd ?r)"
    by simp
  have ex: "\<exists>r \<in> set (orders busy_shop). bill_number r = ''B100'' \<and> status r \<noteq> Complete"
    by (simp add: sample_defs)
  note t = complete_order_iff [OF h1 h2]
  from t ex have a: "status_code (fst ?r) = 200"
    by simp
  from t ex have "orders (snd ?r) =
      map (\<lambda>r. if bill_number r = ''B100'' \<and> status r \<noteq> Complete
               then r\<lparr>status := Complete, completion_date := Some (sql_now shop_env)\<rparr>
               else r) (orders busy_shop)"
    by simp
  then have b: "orders (snd ?r) =
       [row_B100\<lparr>status := Complete, completion_date := Some 1736072130\<rparr>,
        row_B101, row_B102, row_B103]"
    by (simp add: sample_defs)
  from t h1 have c: "status_code (fst (put_complete shop_env ''B100'' (snd ?r))) = 404"
    by blast
  from h1 ex a b c show ?thesis
    by blast
qed

text \<open>
  Claim C8. A \<open>completeOrder(billNumber)\<close> answered 200 leaves the table with the same
  rows in the same places; every row keeps its \<open>bill_number\<close>, \<open>bill_date\<close>,
  \<open>delivery_date\<close>, notes, \<open>image_path\<close>, \<open>customer_name\<close> and \<open>total_amount\<close>; the
  matched row has status Complete and \<open>completion_date\<close> the row store's current
  time; a row with another bill number is unchanged; the folder \<open>uploads/\<close> is
  unchanged. And no operation removes a row: after any of the four operations the
  table begins with rows of the same bill numbers as before.
\<close>

theorem complete_order_frame:
  assumes "put_complete e b s = (rsp, s')" and "status_code rsp = 200"
  shows "length (orders s') = length (orders s)
         \<and> (\<forall>i < length (orders s).
               bill_number (orders s' ! i) = bill_number (orders s ! i)
               \<and> bill_date (orders s' ! i) = bill_date (orders s ! i)
               \<and> delivery_date (orders s' ! i) = delivery_date (orders s ! i)
               \<and> notes (orders s' ! i) = notes (orders s ! i)
               \<and> image_path (orders s' ! i) = image_path (orders s ! i)
               \<and> customer_name (orders s' ! i) = customer_name (orders s ! i)
               \<and> total_amount (orders s' ! i) = total_amount (orders s ! i)
               \<and> (bill_number (orders s ! i) = b \<and> status (orders s ! i) \<noteq> Complete \<longrightarrow>
                    status (orders s' ! i) = Complete
                    \<and> completion_date (orders s' ! i) = Some (sql_now e))
               \<and> (bill_number (orders s ! i) \<noteq> b \<longrightarrow> orders s' ! i = orders s ! i))
         \<and> uploads s' = uploads s
         \<and> (\<forall>e1 op s1.
               length (orders s1) \<le> length (orders (snd (handle e1 op s1)))
               \<and> map bill_number (take (length (orders s1)) (orders (snd (handle e1 op s1))))
                   = map bill_number (orders s1))"
proof -
  have keep: "length (orders s1) \<le> length (orders (snd (handle e1 op s1)))
               \<and> map bill_number (take (length (orders s1)) (orders (snd (handle e1 op s1))))
                   = map bill_number (orders s1)" for e1 op s1
  proof (cases op)
    case (CreateOrder req)
    then show ?thesis
      by (auto simp: post_defs split: option.splits if_splits)
  next
    case (CompleteOrder c)
    then show ?thesis
      by (auto simp: put_complete_def execute_complete_def executed_def Let_def comp_def
               split: option.splits if_splits intro!: map_cong)
  next
    case (ListPending x y)
    then show ?thesis
      by (auto simp: get_pending_def execute_select_pending_def executed_def Let_def
               split: option.splits)
  next
    case ListAll
    then show ?thesis
      by (auto simp: get_orders_def execute_select_all_def executed_def Let_def
               split: option.splits)
  qed
  have frame: "length (orders s') = length (orders s)
         \<and> (\<forall>i < length (orders s).
               bill_number (orders s' ! i) = bill_number (orders s ! i)
               \<and> bill_date (orders s' ! i) = bill_date (orders s ! i)
               \<and> delivery_date (orders s' ! i) = delivery_date (orders s ! i)
               \<and> notes (orders s' ! i) = notes (orders s ! i)
               \<and> image_path (orders s' ! i) = image_path (orders s ! i)
               \<and> customer_name (orders s' ! i) = customer_name (orders s ! i)
               \<and> total_amount (orders s' ! i) = total_amount (orders s ! i)
               \<and> (bill_number (orders s ! i) = b \<and> status (orders s ! i) \<noteq> Complete \<longrightarrow>
                    status (orders s' ! i) = Complete
                    \<and> completion_date (orders s' ! i) = Some (sql_now e))
               \<and> (bill_number (orders s ! i) \<noteq> b \<longrightarrow> orders s' ! i = orders s ! i))
         \<and> uploads s' = uploads s"
    using assms
    by (auto simp: put_complete_def execute_complete_def executed_def Let_def eligible_def
             split: option.splits if_splits)
  from frame keep show ?thesis by blast
qed

theorem complete_order_frame_witness:
  "status_code (fst (put_complete shop_env ''B100'' busy_shop)) = 200
   \<and> length (orders (snd (put_complete shop_env ''B100'' busy_shop))) = length (orders busy_shop)
   \<and> (0::nat) < length (orders busy_shop)
   \<and> bill_number (orders busy_shop ! 0) = ''B100''
   \<and> status (orders busy_shop ! 0) \<noteq> Complete
   \<and> status (orders (snd (put_complete shop_env ''B100'' busy_shop)) ! 0) = Complete
   \<and> delivery_date (orders (snd (put_complete shop_env ''B100'' busy_shop)) ! 0)
       = delivery_date (orders busy_shop ! 0)
   \<and> (1::nat) < length (orders busy_shop)
   \<and> bill_number (orders busy_shop ! 1) \<noteq> ''B100''
   \<and> orders (snd (put_complete shop_env ''B100'' busy_shop)) ! 1 = orders busy_shop ! 1"
proof -
  let ?r = "put_complete shop_env ''B100'' busy_shop"
  have h1: "?r = (fst ?r, snd ?r)"
    by simp
  have h2: "status_code (fst ?r) = 200"
    by (simp add: put_complete_def execute_complete_def executed_def eligible_def Let_def
          sample_defs)
  have i0: "(0::nat) < length (orders busy_shop)" "bill_number (orders busy_shop ! 0) = ''B100''"
    "status (orders busy_shop ! 0) \<noteq> Complete"
    by (simp_all add: sample_defs)
  have i1: "(1::nat) < length (orders busy_shop)" "bill_number (orders busy_shop ! 1) \<noteq> ''B100''"
    by (simp_all add: sample_defs)
  note t = complete_order_frame [OF h1 h2]
  from t have len: "length (orders (snd ?r)) = length (orders busy_shop)"
    by blast
  from t i0 have a: "status (orders (snd ?r) ! 0) = Complete"
    "delivery_date (orders (snd ?r) ! 0) = delivery_date (orders busy_shop ! 0)"
    by blast+
  from t i1 have b: "orders (snd ?r) ! 1 = orders busy_shop ! 1"
    by blast
  from h2 len i0 i1 a b show ?thesis
    by blast
qed

subsection \<open>Listing orders\<close>

text \<open>
  Claim C3. On a row store that executes the statement, \<open>listPending\<close> answers with
  exactly the orders (each as often as the table has it) whose status is Pending or
  InProgress and whose \<open>delivery_date\<close> lies between the two bounds, both included,
  where a start date that is omitted (absent or empty) counts as 2000-01-01 and an
  omitted end date as 2100-01-01; the rows are in ascending order of \<open>delivery_date\<close> and
  carry \<open>bill_number\<close>, \<open>delivery_date\<close>, notes, status and \<open>image_path\<close>.
\<close>

theorem list_pending_exact:
  assumes "db_fault e = None"
    and "lo = (case a of None \<Rightarrow> ''2000-01-01''
               | Some d \<Rightarrow> if d = [] then ''2000-01-01'' else d)"
    and "hi = (case b of None \<Rightarrow> ''2100-01-01''
               | Some d \<Rightarrow> if d = [] then ''2100-01-01'' else d)"
  shows "\<exists>rows. fst (get_pending e a b s) = Response 200 (PendingRows rows)
           \<and> mset rows =
               mset (map (\<lambda>r. \<lparr>p_bill_number = bill_number r,
                               p_delivery_date = delivery_date r,
                               p_notes = notes r, p_status = status r,
                               p_image_path = image_path r\<rparr>)
                      (filter (\<lambda>r. (status r = Pending \<or> status r = InProgress)
                                   \<and> lo \<le> delivery_date r \<and> delivery_date r \<le> hi)
                         (orders s)))
           \<and> sorted (map p_delivery_date rows)
           \<and> orders (snd (get_pending e a b s)) = orders s"
proof -
  let ?sel = "filter (pending_between lo hi) (orders s)"
  let ?rows = "map pending_projection (sort_key delivery_date ?sel)"
  have lo: "or_default a ''2000-01-01'' = lo" and hi: "or_default b ''2100-01-01'' = hi"
    using assms by (simp_all add: or_default_def)
  have r: "fst (get_pending e a b s) = Response 200 (PendingRows ?rows)"
    using assms(1) by (simp add: get_pending_def execute_select_pending_def Let_def lo hi)
  have u: "orders (snd (get_pending e a b s)) = orders s"
    using assms(1)
    by (simp add: get_pending_def execute_select_pending_def executed_def Let_def)
  have k: "map p_delivery_date ?rows = map delivery_date (sort_key delivery_date ?sel)"
    by (simp add: pending_projection_def comp_def)
  have srt: "sorted (map p_delivery_date ?rows)"
    unfolding k by (rule sorted_sort_key)
  have ms: "mset ?rows = mset (map pending_projection ?sel)"
    by simp
  have ms2: "mset ?rows =
               mset (map (\<lambda>r. \<lparr>p_bill_number = bill_number r,
                               p_delivery_date = delivery_date r,
                               p_notes = notes r, p_status = status r,
                               p_image_path = image_path r\<rparr>)
                      (filter (\<lambda>r. (status r = Pending \<or> status r = InProgress)
                                   \<and> lo \<le> delivery_date r \<and> delivery_date r \<le> hi)
                         (orders s)))"
    unfolding ms by (simp add: pending_projection_def[abs_def] pending_between_def[abs_def])
  from r srt ms2 u show ?thesis by blast
qed

theorem list_pending_exact_witness:
  "db_fault shop_env = None
   \<and> (\<exists>rows. fst (get_pending shop_env None (Some ''2025-01-31'') busy_shop)
               = Response 200 (PendingRows rows)
         \<and> mset rows =
               mset (map (\<lambda>r. \<lparr>p_bill_number = bill_number r,
                               p_delivery_date = delivery_date r,
                               p_notes = notes r, p_status = status r,
                               p_image_path = image_path r\<rparr>)
                      (filter (\<lambda>r. (status r = Pending \<or> status r = InProgress)
                                   \<and> ''2000-01-01'' \<le> delivery_date r
                                   \<and> delivery_date r \<le> ''2025-01-31'')
                         (orders busy_shop)))
         \<and> sorted (map p_delivery_date rows))"
proof -
  have h1: "db_fault shop_env = None"
    by (simp add: shop_env_def)
  have h2: "''2000-01-01'' = (case None :: string option of None \<Rightarrow> ''2000-01-01''
               | Some d \<Rightarrow> if d = [] then ''2000-01-01'' else d)"
    by simp
  have h3: "''2025-01-31'' = (case Some ''2025-01-31'' of None \<Rightarrow> ''2100-01-01''
               | Some d \<Rightarrow> if d = [] then ''2100-01-01'' else d)"
    by simp
  from list_pending_exact [OF h1 h2 h3, of busy_shop] h1 show ?thesis
    by blast
qed

text \<open>
  Claim C5. On a row store that executes the statement, \<open>listAll\<close> answers with every
  order of the table, whatever its status (each as often as the table has it), in
  descending order of \<open>bill_number\<close>, carrying \<open>bill_number\<close>, \<open>delivery_date\<close>, notes,
  status, \<open>completion_date\<close> and \<open>image_path\<close>; in particular the order of a request
  that has just been answered 201 is among them, as Pending.
\<close>

theorem list_all_complete:
  assumes "db_fault e = None"
  shows "\<exists>rows. fst (get_orders e s) = Response 200 (AllRows rows)
           \<and> mset rows =
               mset (map (\<lambda>r. \<lparr>a_bill_number = bill_number r,
                               a_delivery_date = delivery_date r,
                               a_notes = notes r, a_status = status r,
                               a_completion_date = completion_date r,
                               a_image_path = image_path r\<rparr>)
                      (orders s))
           \<and> sorted_wrt (\<lambda>x y. y \<le> x) (map a_bill_number rows)
           \<and> (\<forall>e0 req s0 rsp.
                 post_orders e0 req s0 = (rsp, s) \<and> status_code rsp = 201 \<longrightarrow>
                 (\<exists>row \<in> set rows. Some (a_bill_number row) = body_bill_number req
                     \<and> a_status row = Pending))"
proof -
  let ?rows = "map all_projection (rev (sort_key bill_number (orders s)))"
  have r: "fst (get_orders e s) = Response 200 (AllRows ?rows)"
    using assms by (simp add: get_orders_def execute_select_all_def Let_def)
  have ms: "mset ?rows =
               mset (map (\<lambda>r. \<lparr>a_bill_number = bill_number r,
                               a_delivery_date = delivery_date r,
                               a_notes = notes r, a_status = status r,
                               a_completion_date = completion_date r,
                               a_image_path = image_path r\<rparr>)
                      (orders s))"
    by (simp add: all_projection_def[abs_def])
  have k: "map a_bill_number ?rows = rev (map bill_number (sort_key bill_number (orders s)))"
    by (simp add: all_projection_def comp_def rev_map)
  have "sorted (map bill_number (sort_key bill_number (orders s)))"
    by (rule sorted_sort_key)
  then have srt: "sorted_wrt (\<lambda>x y. y \<le> x) (map a_bill_number ?rows)"
    unfolding k by (simp add: sorted_wrt_rev)
  have vis: "\<exists>row \<in> set ?rows. Some (a_bill_number row) = body_bill_number req
               \<and> a_status row = Pending"
    if "post_orders e0 req s0 = (rsp, s)" and "status_code rsp = 201" for e0 req s0 rsp
  proof -
    from post_orders_created [OF that] obtain b r where
      b: "body_bill_number req = Some b" and o: "orders s = orders s0 @ [r]"
      and rb: "bill_number r = b" and rs: "status r = Pending"
      by fastforce
    from o have "r \<in> set (orders s)" by simp
    then have "all_projection r \<in> set ?rows" by simp
    moreover have "Some (a_bill_number (all_projection r)) = body_bill_number req"
      "a_status (all_projection r) = Pending"
      using b rb rs by (simp_all add: all_projection_def)
    ultimately show ?thesis by blast
  qed
  from r ms srt vis show ?thesis by blast
qed

theorem list_all_complete_witness:
  "db_fault shop_env = None
   \<and> status_code
        (fst (post_orders shop_env (order_B100\<lparr>body_bill_number := Some ''B104''\<rparr>) busy_shop))
       = 201
   \<and> (\<exists>rows. fst (get_orders shop_env
                     (snd (post_orders shop_env
                             (order_B100\<lparr>body_bill_number := Some ''B104''\<rparr>) busy_shop)))
               = Response 200 (AllRows rows)
         \<and> size (mset rows) = 5
         \<and> sorted_wrt (\<lambda>x y. y \<le> x) (map a_bill_number rows)
         \<and> (\<exists>row \<in> set rows. a_bill_number row = ''B104'' \<and> a_status row = Pending))"
proof -
  let ?q = "order_B100\<lparr>body_bill_number := Some ''B104''\<rparr>"
  let ?c = "post_orders shop_env ?q busy_shop"
  have h1: "db_fault shop_env = None"
    by (simp add: shop_env_def)
  have c1: "?c = (fst ?c, snd ?c)"
    by simp
  have c2: "status_code (fst ?c) = 201"
    by (simp add: eval_defs)
  have n: "length (orders (snd ?c)) = 5"
    by (simp add: eval_defs)
  have q: "body_bill_number ?q = Some ''B104''"
    by simp
  from list_all_complete [OF h1, of "snd ?c"] obtain rows where
    r: "fst (get_orders shop_env (snd ?c)) = Response 200 (AllRows rows)"
    and m: "mset rows =
               mset (map (\<lambda>r. \<lparr>a_bill_number = bill_number r,
                               a_delivery_date = delivery_date r,
                               a_notes = notes r, a_status = status r,
                               a_completion_date = completion_date r,
                               a_image_path = image_path r\<rparr>)
                      (orders (snd ?c)))"
    and d: "sorted_wrt (\<lambda>x y. y \<le> x) (map a_bill_number rows)"
    and v: "\<forall>e0 req s0 rsp.
                 post_orders e0 req s0 = (rsp, snd ?c) \<and> status_code rsp = 201 \<longrightarrow>
                 (\<exists>row \<in> set rows. Some (a_bill_number row) = body_bill_number req
                     \<and> a_status row = Pending)"
    by blast
  have "size (mset rows) = length (orders (snd ?c))"
    unfolding m by simp
  with n have sz: "size (mset rows) = 5"
    by simp
  from v c1 c2 have "\<exists>row \<in> set rows. Some (a_bill_number row) = body_bill_number ?q
               \<and> a_status row = Pending"
    by blast
  with q have vis: "\<exists>row \<in> set rows. a_bill_number row = ''B104'' \<and> a_status row = Pending"
    by auto
  from h1 c2 r sz d vis show ?thesis
    by blast
qed

subsection \<open>Starting the server\<close>

text \<open>
  Claim C10. The process asks the pool for a connection exactly once at startup;
  \<open>app.listen\<close> is called only when that connection was obtained, and after it was
  obtained and confirmed; when the connection fails the process never listens, and so
  never accepts a request.
\<close>

theorem startup_checks_store_once:
  "length (filter (\<lambda>ev. ev = GetConnection) (start_server outcome)) = 1
   \<and> (accepting (start_server outcome) \<longleftrightarrow> outcome = None)
   \<and> (\<forall>i < length (start_server outcome). \<forall>n. start_server outcome ! i = Listen n \<longrightarrow>
         outcome = None \<and> (\<exists>j < i. start_server outcome ! j = GetConnection)
         \<and> (\<exists>j < i. start_server outcome ! j = LogConnected))"
proof (cases outcome)
  case None
  have "\<And>i. i < 4 \<Longrightarrow> i = 0 \<or> i = 1 \<or> i = 2 \<or> i = (3::nat)" by arith
  with None show ?thesis
    by (auto simp: start_server_def accepting_def nth_Cons split: nat.splits)
next
  case (Some msg)
  have "\<And>i. i < 2 \<Longrightarrow> i = 0 \<or> i = (1::nat)" by arith
  with Some show ?thesis
    by (auto simp: start_server_def accepting_def nth_Cons split: nat.splits)
qed

theorem startup_checks_store_once_witness:
  "\<not> accepting (start_server (Some ''connect ECONNREFUSED 127.0.0.1:3306''))
   \<and> accepting (start_server None)
   \<and> (3::nat) < length (start_server None)
   \<and> start_server None ! 3 = Listen PORT
   \<and> (\<exists>j < 3. start_server None ! j = GetConnection)"
proof -
  have l: "(3::nat) < length (start_server None)" "start_server None ! 3 = Listen PORT"
    by (simp_all add: start_server_def)
  from startup_checks_store_once [of "Some ''connect ECONNREFUSED 127.0.0.1:3306''"]
  have a: "\<not> accepting (start_server (Some ''connect ECONNREFUSED 127.0.0.1:3306''))"
    by simp
  note t = startup_checks_store_once [of None]
  from t have b: "accepting (start_server None)"
    by simp
  from t l have c: "\<exists>j < 3. start_server None ! j = GetConnection"
    by blast
  from a b c l show ?thesis
    by blast
qed

end
